theory Spec2Isabelle
  imports Main
begin

section \<open>The user and submission store of \<^verbatim>\<open>src/database/local_db.py\<close>\<close>

text \<open>
  The module defines two tables (\<^verbatim>\<open>users\<close>, \<^verbatim>\<open>submissions\<close>) and five request
  handlers. Every handler opens a session, runs one query or one mutation and closes the
  session on the paths it writes out; no handler catches an exception of the store. The
  handlers are embedded as functions from the database before the call to a result (an
  error or a value) and the database after the call.

  Conventions of the embedding:
  \<^item> a nullable column is an \<open>option\<close>; \<open>None\<close> is SQL NULL and Python \<^verbatim>\<open>None\<close>;
  \<^item> Python integers are \<open>int\<close> (unbounded, as pydantic's \<^verbatim>\<open>int\<close>); SQLite takes an
    integer parameter only in the signed 64-bit range, and binding any other raises
    \<^verbatim>\<open>OverflowError\<close>;
  \<^item> a \<^verbatim>\<open>datetime\<close> is an integer number of microseconds;
  \<^item> every call of \<^verbatim>\<open>datetime.utcnow\<close> is an argument of the handler that makes it: the
    wall clock is an input of the program, and nothing in the module orders or
    compares its readings;
  \<^item> a table is the list of its rows in insertion order;
  \<^item> an exception is a value \<open>Inl e\<close>; the database returned with it is the one the
    handler leaves behind when the exception propagates.
\<close>

subsection \<open>Rows and payloads\<close>

type_synonym datetime = int

text \<open>\<^verbatim>\<open>class UserCreate(BaseModel)\<close>: \<^verbatim>\<open>slack_id: str\<close>, \<^verbatim>\<open>display_name: str | None = None\<close>.\<close>

record UserCreate =
  slack_id :: string
  display_name :: "string option"

text \<open>
  \<^verbatim>\<open>class UserUpdate(BaseModel)\<close>: four fields of type \<^verbatim>\<open>T | None\<close> with default \<^verbatim>\<open>None\<close>.
  pydantic remembers which fields the request body set. The outer \<open>option\<close> is that
  memory: \<open>None\<close> is a field the body omitted, \<open>Some None\<close> a field the body set to
  \<^verbatim>\<open>null\<close>, \<open>Some (Some v)\<close> a field the body set to \<open>v\<close>.
\<close>

record UserUpdate =
  total_xp :: "int option option"
  current_streak :: "int option option"
  longest_streak :: "int option option"
  display_name :: "string option option"

text \<open>\<^verbatim>\<open>class Submission(Base)\<close>.\<close>

record Submission =
  submission_id :: int
  author_id :: int
  created_at :: datetime

text \<open>
  \<^verbatim>\<open>class User(Base)\<close>. \<^verbatim>\<open>slack_id\<close> is \<^verbatim>\<open>nullable=False\<close>; the three counters and
  \<^verbatim>\<open>display_name\<close> are nullable columns.
\<close>

record User =
  user_id :: int
  slack_id :: string
  display_name :: "string option"
  total_xp :: "int option"
  current_streak :: "int option"
  longest_streak :: "int option"
  created_at :: datetime
  updated_at :: datetime

subsection \<open>The database and its sessions\<close>

text \<open>
  The SQLite file behind \<^verbatim>\<open>engine\<close>, with the number of sessions that
  \<^verbatim>\<open>SessionLocal()\<close> has opened and \<^verbatim>\<open>session.close()\<close> has not yet released.
\<close>

record database =
  users :: "User list"
  submissions :: "Submission list"
  open_sessions :: nat

datatype error =
  HTTPException nat string
  | IntegrityError
  | InvalidRequestError
  | OverflowError

text \<open>
  The integers SQLite stores and accepts as parameters: \<^verbatim>\<open>-2**63 <= n < 2**63\<close>. The handlers
  never check their integer arguments, so \<open>bind_int\<close> is where an argument outside the
  range fails: when the statement that carries it is executed.
\<close>

definition sqlite_int :: "int \<Rightarrow> bool" where
  "sqlite_int n \<longleftrightarrow> - (2 ^ 63) \<le> n \<and> n < 2 ^ 63"

definition bind_int :: "int \<Rightarrow> error + int" where
  "bind_int n = (if sqlite_int n then Inr n else Inl OverflowError)"

definition SessionLocal :: "database \<Rightarrow> database" where
  "SessionLocal db = db\<lparr>open_sessions := open_sessions db + 1\<rparr>"

definition session_close :: "database \<Rightarrow> database" where
  "session_close db = db\<lparr>open_sessions := open_sessions db - 1\<rparr>"

text \<open>\<^verbatim>\<open>Query.first()\<close>: the first row of the result, or \<^verbatim>\<open>None\<close>.\<close>

fun first :: "'a list \<Rightarrow> 'a option" where
  "first [] = None"
| "first (r # rs) = Some r"

text \<open>\<^verbatim>\<open>session.query(User).filter_by(slack_id=slack_id)\<close>.\<close>

definition filter_by_slack_id :: "string \<Rightarrow> User list \<Rightarrow> User list" where
  "filter_by_slack_id s rows = filter (\<lambda>r. User.slack_id r = s) rows"

text \<open>\<^verbatim>\<open>session.query(Submission).filter_by(author_id=author_id)\<close>.\<close>

definition filter_by_author_id :: "int \<Rightarrow> Submission list \<Rightarrow> Submission list" where
  "filter_by_author_id a rows = filter (\<lambda>r. author_id r = a) rows"

text \<open>\<^verbatim>\<open>Query.count()\<close>.\<close>

definition count :: "'a list \<Rightarrow> int" where
  "count rows = int (length rows)"

text \<open>The row that \<^verbatim>\<open>SELECT ... WHERE users.user_id = ?\<close> finds for a key it could bind.\<close>

definition select_by_key :: "int \<Rightarrow> User list \<Rightarrow> User option" where
  "select_by_key k rows = first (filter (\<lambda>r. user_id r = k) rows)"

text \<open>
  \<^verbatim>\<open>session.query(User).get(user_id)\<close> in a new session: the key is bound and the row with
  this primary key, or \<^verbatim>\<open>None\<close>, is returned; \<^verbatim>\<open>OverflowError\<close> for a key SQLite cannot
  take.
\<close>

definition query_get :: "int \<Rightarrow> User list \<Rightarrow> error + User option" where
  "query_get k rows =
     (case bind_int k of Inl e \<Rightarrow> Inl e | Inr k \<Rightarrow> Inr (select_by_key k rows))"

text \<open>
  The key SQLite gives a row inserted without one into a table with an
  \<^verbatim>\<open>INTEGER PRIMARY KEY\<close>: 1 in an empty table, else one more than the largest key.
\<close>

fun next_user_id :: "User list \<Rightarrow> int" where
  "next_user_id [] = 1"
| "next_user_id (r # rs) = fold max (map user_id rs) (user_id r) + 1"

text \<open>
  The \<^verbatim>\<open>INSERT\<close> that \<^verbatim>\<open>session.commit()\<close> flushes for a pending \<^verbatim>\<open>User(slack_id=...,
  display_name=...)\<close>. The \<^verbatim>\<open>unique=True\<close> index on \<^verbatim>\<open>slack_id\<close> rejects a value some row
  already has; the failed transaction is rolled back, so no row is added. Otherwise the
  columns the constructor did not set take their \<^verbatim>\<open>default\<close>: 0 for the three counters,
  and one call of \<^verbatim>\<open>datetime.utcnow\<close> for \<^verbatim>\<open>created_at\<close> and another for \<^verbatim>\<open>updated_at\<close>
  (each column has its own default callable). The result is the new key and the table.
\<close>

definition insert_user ::
  "string \<Rightarrow> string option \<Rightarrow> datetime \<Rightarrow> datetime \<Rightarrow> User list \<Rightarrow> error + int \<times> User list" where
  "insert_user s d t_created t_updated rows =
     (if filter_by_slack_id s rows \<noteq> [] then Inl IntegrityError
      else
        let k = next_user_id rows;
            row = \<lparr>user_id = k, slack_id = s, display_name = d,
                   total_xp = Some 0, current_streak = Some 0, longest_streak = Some 0,
                   created_at = t_created, updated_at = t_updated\<rparr>
        in Inr (k, rows @ [row]))"

text \<open>The table after a row with the key of \<open>u\<close> has been overwritten by \<open>u\<close>.\<close>

definition replace_row :: "User \<Rightarrow> User list \<Rightarrow> User list" where
  "replace_row u rows = map (\<lambda>r. if user_id r = user_id u then u else r) rows"

text \<open>
  \<^verbatim>\<open>session.refresh(user)\<close>: load the row again by its primary key, which the object
  carries from the store; \<^verbatim>\<open>InvalidRequestError\<close> when the row is gone.
\<close>

definition refresh :: "int \<Rightarrow> User list \<Rightarrow> error + User" where
  "refresh k rows =
     (case select_by_key k rows of None \<Rightarrow> Inl InvalidRequestError | Some u \<Rightarrow> Inr u)"

subsection \<open>The partial update\<close>

text \<open>One entry of \<^verbatim>\<open>payload.dict(exclude_unset=True)\<close>: a field name with its value.\<close>

datatype item =
  Total_xp "int option"
  | Current_streak "int option"
  | Longest_streak "int option"
  | Display_name "string option"

text \<open>\<^verbatim>\<open>payload.dict(exclude_unset=True)\<close>: the fields the body set, in declaration order.\<close>

definition dict_exclude_unset :: "UserUpdate \<Rightarrow> item list" where
  "dict_exclude_unset payload =
     (case UserUpdate.total_xp payload of None \<Rightarrow> [] | Some v \<Rightarrow> [Total_xp v]) @
     (case UserUpdate.current_streak payload of None \<Rightarrow> [] | Some v \<Rightarrow> [Current_streak v]) @
     (case UserUpdate.longest_streak payload of None \<Rightarrow> [] | Some v \<Rightarrow> [Longest_streak v]) @
     (case UserUpdate.display_name payload of None \<Rightarrow> [] | Some v \<Rightarrow> [Display_name v])"

text \<open>\<^verbatim>\<open>setattr(user, k, v)\<close>.\<close>

fun setattr :: "User \<Rightarrow> item \<Rightarrow> User" where
  "setattr u (Total_xp v) = u\<lparr>total_xp := v\<rparr>"
| "setattr u (Current_streak v) = u\<lparr>current_streak := v\<rparr>"
| "setattr u (Longest_streak v) = u\<lparr>longest_streak := v\<rparr>"
| "setattr u (Display_name v) = u\<lparr>display_name := v\<rparr>"

text \<open>Whether SQLite can bind the value of an entry: any string or \<^verbatim>\<open>None\<close>, an integer in range.\<close>

fun sqlite_item :: "item \<Rightarrow> bool" where
  "sqlite_item (Total_xp v) = (case v of None \<Rightarrow> True | Some n \<Rightarrow> sqlite_int n)"
| "sqlite_item (Current_streak v) = (case v of None \<Rightarrow> True | Some n \<Rightarrow> sqlite_int n)"
| "sqlite_item (Longest_streak v) = (case v of None \<Rightarrow> True | Some n \<Rightarrow> sqlite_int n)"
| "sqlite_item (Display_name v) = True"

text \<open>
  The \<^verbatim>\<open>UPDATE users SET ... WHERE users.user_id = ?\<close> that \<^verbatim>\<open>session.commit()\<close> flushes for
  the loaded object \<open>u\<close> after the entries of \<open>data\<close> and \<^verbatim>\<open>updated_at\<close> were assigned to
  it. The statement binds the assigned values; a counter outside the range of SQLite
  raises \<^verbatim>\<open>OverflowError\<close>, the transaction is rolled back and no row changes. (A
  \<^verbatim>\<open>DateTime\<close> is bound as text.)
\<close>

definition update_row :: "item list \<Rightarrow> User \<Rightarrow> User list \<Rightarrow> error + User list" where
  "update_row data u rows =
     (if list_all sqlite_item data then Inr (replace_row u rows) else Inl OverflowError)"

subsection \<open>The five handlers\<close>

abbreviation not_found :: error where
  "not_found \<equiv> HTTPException 404 ''User not found''"

text \<open>
  \<^verbatim>\<open>create_user\<close>. When \<^verbatim>\<open>session.commit()\<close> or \<^verbatim>\<open>session.refresh(user)\<close> raises, the
  exception leaves the handler before \<^verbatim>\<open>session.close()\<close> is reached.
\<close>

definition create_user ::
  "UserCreate \<Rightarrow> datetime \<Rightarrow> datetime \<Rightarrow> database \<Rightarrow> (error + User) \<times> database" where
  "create_user payload t_created t_updated db =
     (let session = SessionLocal db in
      case insert_user (UserCreate.slack_id payload) (UserCreate.display_name payload)
             t_created t_updated (users session) of
        Inl e \<Rightarrow> (Inl e, session)
      | Inr (k, rows) \<Rightarrow>
          let session = session\<lparr>users := rows\<rparr> in
          (case refresh k (users session) of
             Inl e \<Rightarrow> (Inl e, session)
           | Inr user \<Rightarrow> (Inr user, session_close session)))"

text \<open>\<^verbatim>\<open>get_user_by_slack\<close>: the session is closed before the result is tested.\<close>

definition get_user_by_slack :: "string \<Rightarrow> database \<Rightarrow> (error + User) \<times> database" where
  "get_user_by_slack s db =
     (let session = SessionLocal db;
          user = first (filter_by_slack_id s (users session));
          db' = session_close session
      in case user of
           None \<Rightarrow> (Inl not_found, db')
         | Some u \<Rightarrow> (Inr u, db'))"

text \<open>
  \<^verbatim>\<open>get_user\<close>. When the lookup raises, the exception leaves the handler before
  \<^verbatim>\<open>session.close()\<close>.
\<close>

definition get_user :: "int \<Rightarrow> database \<Rightarrow> (error + User) \<times> database" where
  "get_user k db =
     (let session = SessionLocal db in
      case query_get k (users session) of
        Inl e \<Rightarrow> (Inl e, session)
      | Inr user \<Rightarrow>
          let db' = session_close session
          in (case user of
                None \<Rightarrow> (Inl not_found, db')
              | Some u \<Rightarrow> (Inr u, db')))"

text \<open>
  \<^verbatim>\<open>update_user\<close>; \<open>now\<close> is the value of \<^verbatim>\<open>datetime.utcnow()\<close> in
  \<^verbatim>\<open>user.updated_at = datetime.utcnow()\<close>. The loop over \<^verbatim>\<open>data.items()\<close> is the fold.
  Only the not-found branch closes the session before it raises; an exception of the
  lookup, of \<^verbatim>\<open>session.commit()\<close> or of \<^verbatim>\<open>session.refresh(user)\<close> leaves the handler
  with the session open.
\<close>

definition update_user ::
  "int \<Rightarrow> UserUpdate \<Rightarrow> datetime \<Rightarrow> database \<Rightarrow> (error + User) \<times> database" where
  "update_user k payload now db =
     (let session = SessionLocal db in
      case query_get k (users session) of
        Inl e \<Rightarrow> (Inl e, session)
      | Inr None \<Rightarrow> (Inl not_found, session_close session)
      | Inr (Some user) \<Rightarrow>
          let data = dict_exclude_unset payload;
              user = fold (\<lambda>kv u. setattr u kv) data user;
              user = user\<lparr>updated_at := now\<rparr>
          in (case update_row data user (users session) of
                Inl e \<Rightarrow> (Inl e, session)
              | Inr rows \<Rightarrow>
                  let session = session\<lparr>users := rows\<rparr>
                  in (case refresh (user_id user) (users session) of
                        Inl e \<Rightarrow> (Inl e, session)
                      | Inr user \<Rightarrow> (Inr user, session_close session))))"

text \<open>
  \<^verbatim>\<open>submissions_count\<close>: \<^verbatim>\<open>count()\<close> executes the query and binds \<^verbatim>\<open>author_id\<close>; when
  that raises, \<^verbatim>\<open>session.close()\<close> is not reached.
\<close>

definition submissions_count :: "int \<Rightarrow> database \<Rightarrow> (error + int) \<times> database" where
  "submissions_count a db =
     (let session = SessionLocal db in
      case bind_int a of
        Inl e \<Rightarrow> (Inl e, session)
      | Inr a \<Rightarrow>
          let n = count (filter_by_author_id a (submissions session));
              db' = session_close session
          in (Inr n, db'))"

subsection \<open>Sequences of requests\<close>




subsection \<open>Example data\<close>

definition empty_db :: database where
  "empty_db = \<lparr>users = [], submissions = [], open_sessions = 0\<rparr>"

definition ann :: UserCreate where
  "ann = \<lparr>UserCreate.slack_id = ''U1'', UserCreate.display_name = Some ''Ann''\<rparr>"

definition ann_row :: User where
  "ann_row = \<lparr>user_id = 1, slack_id = ''U1'', display_name = Some ''Ann'',
               total_xp = Some 0, current_streak = Some 0, longest_streak = Some 0,
               created_at = 10, updated_at = 11\<rparr>"

definition ann_db :: database where
  "ann_db = \<lparr>users = [ann_row], submissions = [], open_sessions = 0\<rparr>"

definition only_total_xp_50 :: UserUpdate where
  "only_total_xp_50 =
     \<lparr>UserUpdate.total_xp = Some (Some 50), UserUpdate.current_streak = None,
      UserUpdate.longest_streak = None, UserUpdate.display_name = None\<rparr>"

definition clear_name :: UserUpdate where
  "clear_name =
     \<lparr>UserUpdate.total_xp = None, UserUpdate.current_streak = Some (Some 3),
      UserUpdate.longest_streak = None, UserUpdate.display_name = Some None\<rparr>"

definition too_big :: int where
  "too_big = 2 ^ 63"


definition ann_db_session_open :: database where
  "ann_db_session_open = \<lparr>users = [ann_row], submissions = [], open_sessions = 1\<rparr>"

definition sub :: "int \<Rightarrow> int \<Rightarrow> Submission" where
  "sub i a = \<lparr>submission_id = i, author_id = a, Submission.created_at = 0\<rparr>"

definition subs_db :: database where
  "subs_db = \<lparr>users = [ann_row], submissions = [sub 1 1, sub 2 7, sub 3 1], open_sessions = 0\<rparr>"

section \<open>Properties\<close>

subsection \<open>The store\<close>

lemma fold_max_ge: "(a::int) \<le> fold max xs a"
  by (induction xs arbitrary: a) (auto intro: order_trans [OF max.cobounded2])

lemma fold_max_mem: "(x::int) \<in> set xs \<Longrightarrow> x \<le> fold max xs a"
proof (induction xs arbitrary: a)
  case Nil
  then show ?case by simp
next
  case (Cons y ys)
  show ?case
  proof (cases "x = y")
    case True
    have "y \<le> max y a" by simp
    also have "\<dots> \<le> fold max ys (max y a)" by (rule fold_max_ge)
    finally show ?thesis using True by simp
  next
    case False
    with Cons.prems have "x \<in> set ys" by simp
    then show ?thesis by (simp add: Cons.IH)
  qed
qed

lemma next_user_id_fresh: "r \<in> set rows \<Longrightarrow> user_id r < next_user_id rows"
proof (cases rows)
  case Nil
  assume "r \<in> set rows"
  with Nil show ?thesis by simp
next
  case (Cons r0 rs)
  assume "r \<in> set rows"
  with Cons consider "r = r0" | "r \<in> set rs" by auto
  then have "user_id r \<le> fold max (map user_id rs) (user_id r0)"
  proof cases
    case 1
    then show ?thesis by (simp add: fold_max_ge)
  next
    case 2
    then show ?thesis by (simp add: fold_max_mem)
  qed
  with Cons show ?thesis by simp
qed

lemma first_filter_None: "first (filter P rows) = None \<longleftrightarrow> (\<forall>r \<in> set rows. \<not> P r)"
  by (induction rows) auto

lemma first_filter_Some: "first (filter P rows) = Some u \<Longrightarrow> u \<in> set rows \<and> P u"
  by (induction rows) (auto split: if_splits)

lemma select_by_key_None: "select_by_key k rows = None \<longleftrightarrow> k \<notin> user_id ` set rows"
  by (auto simp: select_by_key_def first_filter_None)

lemma select_by_key_Some: "select_by_key k rows = Some u \<Longrightarrow> u \<in> set rows \<and> user_id u = k"
  unfolding select_by_key_def by (rule first_filter_Some)

lemma select_by_key_append_new:
  "k \<notin> user_id ` set rows \<Longrightarrow> user_id r = k \<Longrightarrow> select_by_key k (rows @ [r]) = Some r"
  by (induction rows) (auto simp: select_by_key_def)

lemma select_by_key_replace_row:
  "select_by_key k rows = Some u0 \<Longrightarrow> user_id u = k \<Longrightarrow> select_by_key k (replace_row u rows) = Some u"
  by (induction rows) (auto simp: select_by_key_def replace_row_def split: if_splits)


lemma filter_by_slack_id_empty:
  "filter_by_slack_id s rows = [] \<longleftrightarrow> s \<notin> User.slack_id ` set rows"
  by (auto simp: filter_by_slack_id_def filter_empty_conv)

lemma sessions_balanced: "session_close (SessionLocal db) = db"
  by (simp add: session_close_def SessionLocal_def)

lemma session_close_users: "session_close (SessionLocal db\<lparr>users := rows\<rparr>) = db\<lparr>users := rows\<rparr>"
  by (simp add: session_close_def SessionLocal_def)

lemma users_SessionLocal: "users (SessionLocal db) = users db"
  by (simp add: SessionLocal_def)

lemma submissions_SessionLocal: "submissions (SessionLocal db) = submissions db"
  by (simp add: SessionLocal_def)

lemma setattr_frame:
  "user_id (setattr u kv) = user_id u"
  "User.slack_id (setattr u kv) = User.slack_id u"
  "User.created_at (setattr u kv) = User.created_at u"
  "updated_at (setattr u kv) = updated_at u"
  by (cases kv; simp)+

lemma fold_setattr_frame:
  "user_id (fold (\<lambda>kv u. setattr u kv) data u) = user_id u \<and>
   User.slack_id (fold (\<lambda>kv u. setattr u kv) data u) = User.slack_id u \<and>
   User.created_at (fold (\<lambda>kv u. setattr u kv) data u) = User.created_at u \<and>
   updated_at (fold (\<lambda>kv u. setattr u kv) data u) = updated_at u"
  by (induction data arbitrary: u) (simp_all add: setattr_frame)

lemma fold_setattr_dict:
  "fold (\<lambda>kv u. setattr u kv) (dict_exclude_unset p) u =
     u\<lparr>User.total_xp := (case UserUpdate.total_xp p of None \<Rightarrow> User.total_xp u | Some v \<Rightarrow> v),
       User.current_streak := (case UserUpdate.current_streak p of None \<Rightarrow> User.current_streak u | Some v \<Rightarrow> v),
       User.longest_streak := (case UserUpdate.longest_streak p of None \<Rightarrow> User.longest_streak u | Some v \<Rightarrow> v),
       User.display_name := (case UserUpdate.display_name p of None \<Rightarrow> User.display_name u | Some v \<Rightarrow> v)\<rparr>"
  by (simp add: dict_exclude_unset_def split: option.splits)

subsection \<open>What each handler computes\<close>

lemma insert_user_new:
  "s \<notin> User.slack_id ` set rows \<Longrightarrow>
   insert_user s d tc tu rows =
     Inr (next_user_id rows,
          rows @ [\<lparr>user_id = next_user_id rows, slack_id = s, display_name = d,
                   total_xp = Some 0, current_streak = Some 0, longest_streak = Some 0,
                   created_at = tc, updated_at = tu\<rparr>])"
  by (simp add: insert_user_def filter_by_slack_id_empty Let_def)


lemma next_user_id_notin: "next_user_id rows \<notin> user_id ` set rows"
  using next_user_id_fresh by fastforce

lemma create_user_new:
  assumes "UserCreate.slack_id p \<notin> User.slack_id ` set (users db)"
  shows "create_user p tc tu db =
     (let row = \<lparr>user_id = next_user_id (users db), slack_id = UserCreate.slack_id p,
                   display_name = UserCreate.display_name p,
                   total_xp = Some 0, current_streak = Some 0, longest_streak = Some 0,
                   created_at = tc, updated_at = tu\<rparr>
      in (Inr row, db\<lparr>users := users db @ [row]\<rparr>))"
  using assms
  by (simp add: create_user_def users_SessionLocal insert_user_new refresh_def
      select_by_key_append_new next_user_id_notin session_close_users Let_def)


lemma sqlite_int_too_big: "\<not> sqlite_int too_big"
  by (simp add: sqlite_int_def too_big_def)

lemma query_get_bound: "sqlite_int k \<Longrightarrow> query_get k rows = Inr (select_by_key k rows)"
  by (simp add: query_get_def bind_int_def)

lemma query_get_overflow: "\<not> sqlite_int k \<Longrightarrow> query_get k rows = Inl OverflowError"
  by (simp add: query_get_def bind_int_def)

lemma get_user_eq:
  "sqlite_int k \<Longrightarrow>
   get_user k db =
     (case select_by_key k (users db) of None \<Rightarrow> Inl not_found | Some u \<Rightarrow> Inr u, db)"
  by (simp add: get_user_def query_get_bound users_SessionLocal sessions_balanced
      split: option.splits)

lemma get_user_overflow:
  "\<not> sqlite_int k \<Longrightarrow> get_user k db = (Inl OverflowError, SessionLocal db)"
  by (simp add: get_user_def query_get_overflow)

lemma get_user_by_slack_eq:
  "get_user_by_slack s db =
     (case first (filter_by_slack_id s (users db)) of None \<Rightarrow> Inl not_found | Some u \<Rightarrow> Inr u, db)"
  by (simp add: get_user_by_slack_def users_SessionLocal sessions_balanced split: option.splits)

lemma update_user_overflow_key:
  "\<not> sqlite_int k \<Longrightarrow> update_user k p now db = (Inl OverflowError, SessionLocal db)"
  by (simp add: update_user_def query_get_overflow)

lemma update_user_missing:
  "sqlite_int k \<Longrightarrow> select_by_key k (users db) = None \<Longrightarrow>
   update_user k p now db = (Inl not_found, db)"
  by (simp add: update_user_def query_get_bound users_SessionLocal sessions_balanced)

lemma update_user_overflow_value:
  "sqlite_int k \<Longrightarrow> select_by_key k (users db) = Some u \<Longrightarrow>
   \<not> list_all sqlite_item (dict_exclude_unset p) \<Longrightarrow>
   update_user k p now db = (Inl OverflowError, SessionLocal db)"
  by (simp add: update_user_def query_get_bound users_SessionLocal update_row_def Let_def)

lemma update_user_found:
  assumes "sqlite_int k" and "select_by_key k (users db) = Some u"
    and "list_all sqlite_item (dict_exclude_unset p)"
  shows "update_user k p now db =
     (let u' = (fold (\<lambda>kv u. setattr u kv) (dict_exclude_unset p) u)\<lparr>updated_at := now\<rparr>
      in (Inr u', db\<lparr>users := replace_row u' (users db)\<rparr>))"
proof -
  let ?u' = "(fold (\<lambda>kv u. setattr u kv) (dict_exclude_unset p) u)\<lparr>updated_at := now\<rparr>"
  have k: "user_id u = k"
    using select_by_key_Some [OF assms(2)] by simp
  then have "user_id ?u' = k"
    by (simp add: fold_setattr_frame)
  with assms(2) have "select_by_key k (replace_row ?u' (users db)) = Some ?u'"
    by (rule select_by_key_replace_row)
  then show ?thesis
    using assms k
    by (simp add: update_user_def query_get_bound update_row_def users_SessionLocal refresh_def
        session_close_users Let_def fold_setattr_frame)
qed

lemma get_user_Inr:
  "fst (get_user k db) = Inr u \<longleftrightarrow> sqlite_int k \<and> select_by_key k (users db) = Some u"
  by (cases "sqlite_int k") (simp_all add: get_user_eq get_user_overflow split: option.splits)

lemma update_user_Inr:
  assumes "fst (update_user k p now db) = Inr u'"
  obtains u where "sqlite_int k" and "select_by_key k (users db) = Some u"
    and "list_all sqlite_item (dict_exclude_unset p)"
proof (cases "sqlite_int k")
  case False
  with assms show ?thesis by (simp add: update_user_overflow_key)
next
  case True
  show ?thesis
  proof (cases "select_by_key k (users db)")
    case None
    with assms True show ?thesis by (simp add: update_user_missing)
  next
    case (Some u)
    show ?thesis
    proof (cases "list_all sqlite_item (dict_exclude_unset p)")
      case False
      with assms True Some show ?thesis by (simp add: update_user_overflow_value)
    next
      case ok: True
      with True Some show ?thesis by (rule that)
    qed
  qed
qed

lemma submissions_count_eq:
  "sqlite_int a \<Longrightarrow>
   submissions_count a db =
     (Inr (int (length (filter (\<lambda>r. author_id r = a) (submissions db)))), db)"
  by (simp add: submissions_count_def bind_int_def submissions_SessionLocal sessions_balanced
      count_def filter_by_author_id_def)

lemma submissions_count_overflow:
  "\<not> sqlite_int a \<Longrightarrow> submissions_count a db = (Inl OverflowError, SessionLocal db)"
  by (simp add: submissions_count_def bind_int_def)

lemma only_total_xp_50_bound: "list_all sqlite_item (dict_exclude_unset only_total_xp_50)"
  by (simp add: dict_exclude_unset_def only_total_xp_50_def sqlite_int_def)


subsection \<open>Keys of the \<^verbatim>\<open>users\<close> table\<close>






subsection \<open>The handlers at the example data\<close>

lemmas handler_defs =
  create_user_def get_user_by_slack_def get_user_def update_user_def submissions_count_def
  insert_user_def update_row_def replace_row_def refresh_def query_get_def select_by_key_def
  bind_int_def sqlite_int_def dict_exclude_unset_def filter_by_slack_id_def
  filter_by_author_id_def count_def SessionLocal_def session_close_def Let_def

lemma get_user_ann: "fst (get_user 1 ann_db) = Inr ann_row"
  by (simp add: handler_defs ann_db_def ann_row_def)

section \<open>The claims\<close>

subsection \<open>C1: create, then fetch by slack id\<close>




subsection \<open>C2: updating only \<^verbatim>\<open>total_xp\<close>\<close>

text \<open>
  C2 (as amended). For every existing user \<open>U\<close>, \<^verbatim>\<open>update_user\<close> with the payload
  \<^verbatim>\<open>{total_xp: 50}\<close> returns and stores a record whose \<^verbatim>\<open>total_xp\<close> is 50, whose
  \<^verbatim>\<open>current_streak\<close>, \<^verbatim>\<open>longest_streak\<close> and \<^verbatim>\<open>display_name\<close> are those of \<open>U\<close>, and
  whose \<^verbatim>\<open>updated_at\<close> is the reading of the clock taken during the update; that value is
  strictly greater than the previous one whenever the clock reads later than the stored
  \<^verbatim>\<open>updated_at\<close>.
\<close>

theorem update_only_total_xp:
  assumes "fst (get_user k db) = Inr U"
  shows "\<exists>U'. fst (update_user k only_total_xp_50 now db) = Inr U' \<and>
     fst (get_user k (snd (update_user k only_total_xp_50 now db))) = Inr U' \<and>
     User.total_xp U' = Some 50 \<and>
     User.current_streak U' = User.current_streak U \<and>
     User.longest_streak U' = User.longest_streak U \<and>
     User.display_name U' = User.display_name U \<and>
     updated_at U' = now \<and>
     (updated_at U < now \<longrightarrow> updated_at U < updated_at U')"
proof -
  from assms have bound: "sqlite_int k" and found: "select_by_key k (users db) = Some U"
    by (simp_all add: get_user_Inr)
  then have k: "user_id U = k"
    using select_by_key_Some by blast
  let ?U' = "(fold (\<lambda>kv u. setattr u kv) (dict_exclude_unset only_total_xp_50) U)\<lparr>updated_at := now\<rparr>"
  have "user_id ?U' = k"
    using k by (simp add: fold_setattr_frame)
  with found have stored: "select_by_key k (replace_row ?U' (users db)) = Some ?U'"
    by (rule select_by_key_replace_row)
  have fields: "?U' = U\<lparr>User.total_xp := Some 50, updated_at := now\<rparr>"
    by (simp add: fold_setattr_dict only_total_xp_50_def)
  from stored show ?thesis
    unfolding update_user_found [OF bound found only_total_xp_50_bound] Let_def fields
    by (simp add: get_user_Inr bound)
qed

text \<open>The theorem at the store holding one user last updated at 11, updated at 12.\<close>

theorem update_only_total_xp_witness:
  "fst (get_user 1 ann_db) = Inr ann_row \<and> updated_at ann_row < 12 \<and>
   (\<exists>U'. fst (update_user 1 only_total_xp_50 12 ann_db) = Inr U' \<and>
     fst (get_user 1 (snd (update_user 1 only_total_xp_50 12 ann_db))) = Inr U' \<and>
     User.total_xp U' = Some 50 \<and>
     User.current_streak U' = User.current_streak ann_row \<and>
     User.longest_streak U' = User.longest_streak ann_row \<and>
     User.display_name U' = User.display_name ann_row \<and>
     updated_at U' = 12 \<and> updated_at ann_row < updated_at U')"
proof -
  have t: "updated_at ann_row < 12"
    by (simp add: ann_row_def)
  show ?thesis
    using get_user_ann t update_only_total_xp [OF get_user_ann, of 12] by auto
qed

text \<open>
  C2 as stated asks for a strictly greater \<^verbatim>\<open>updated_at\<close> after every update. The handler
  stores whatever \<^verbatim>\<open>datetime.utcnow()\<close> returns and compares nothing: when the wall clock
  reads 11 again (a coarse or adjusted clock), the stored value 11 does not increase.
\<close>

theorem updated_at_not_increased:
  "fst (get_user 1 ann_db) = Inr ann_row \<and>
   fst (update_user 1 only_total_xp_50 11 ann_db) = Inr (ann_row\<lparr>User.total_xp := Some 50\<rparr>) \<and>
   \<not> updated_at ann_row < updated_at (ann_row\<lparr>User.total_xp := Some 50\<rparr>)"
  by (simp add: handler_defs ann_db_def ann_row_def only_total_xp_50_def)

subsection \<open>C3: updating an unknown user\<close>

text \<open>
  C3 (as amended). For every \<^verbatim>\<open>user_id\<close> \<open>k\<close> in the signed 64-bit range that no row of the
  store has, and every payload, \<^verbatim>\<open>update_user\<close> returns the not-found error and the
  whole store (both tables and the open sessions) is as before.
\<close>

theorem update_unknown_user_not_found:
  assumes "sqlite_int k" and "k \<notin> user_id ` set (users db)"
  shows "update_user k payload now db = (Inl not_found, db)"
  using assms by (simp add: update_user_missing select_by_key_None)

text \<open>The theorem at the store holding one user, for the key 999.\<close>

theorem update_unknown_user_not_found_witness:
  "sqlite_int 999 \<and> 999 \<notin> user_id ` set (users ann_db) \<and>
   update_user 999 clear_name 20 ann_db = (Inl not_found, ann_db)"
proof -
  have r: "sqlite_int 999"
    by (simp add: sqlite_int_def)
  have h: "999 \<notin> user_id ` set (users ann_db)"
    by (simp add: ann_db_def ann_row_def)
  show ?thesis
    using r h update_unknown_user_not_found [OF r h, of clear_name 20] by simp
qed

text \<open>
  C3 as stated covers every absent \<^verbatim>\<open>user_id\<close>. The key \<^verbatim>\<open>2**63\<close> is in no row, yet the
  lookup \<^verbatim>\<open>session.query(User).get(user_id)\<close> cannot bind it: \<^verbatim>\<open>OverflowError\<close> leaves the
  handler before the not-found branch, and the session stays open.
\<close>

theorem update_unbindable_user_id:
  "too_big \<notin> user_id ` set (users ann_db) \<and>
   update_user too_big clear_name 20 ann_db = (Inl OverflowError, ann_db_session_open) \<and>
   update_user too_big clear_name 20 ann_db \<noteq> (Inl not_found, ann_db)"
  by (simp add: handler_defs too_big_def ann_db_def ann_db_session_open_def ann_row_def)

subsection \<open>C4: fetching an unknown user\<close>

text \<open>
  C4 (as amended). In every store, \<^verbatim>\<open>get_user\<close> with a \<^verbatim>\<open>user_id\<close> in the signed 64-bit
  range that no row has returns the not-found error (an error value, not a record), and
  \<^verbatim>\<open>get_user_by_slack\<close> with a \<^verbatim>\<open>slack_id\<close> that no row has returns the not-found error
  as well.
\<close>

theorem get_unknown_not_found:
  "(sqlite_int k \<and> k \<notin> user_id ` set (users db) \<longrightarrow> fst (get_user k db) = Inl not_found) \<and>
   (S \<notin> User.slack_id ` set (users db) \<longrightarrow> fst (get_user_by_slack S db) = Inl not_found)"
proof -
  have "first (filter_by_slack_id S (users db)) = None" if "S \<notin> User.slack_id ` set (users db)"
    using that by (auto simp: filter_by_slack_id_def first_filter_None)
  then show ?thesis
    by (simp add: get_user_eq get_user_by_slack_eq select_by_key_None [symmetric])
qed

text \<open>The theorem for the key 999999 in the empty store and an unknown slack id.\<close>

theorem get_unknown_not_found_witness:
  "sqlite_int 999999 \<and> 999999 \<notin> user_id ` set (users empty_db) \<and>
   fst (get_user 999999 empty_db) = Inl not_found \<and>
   ''U2'' \<notin> User.slack_id ` set (users ann_db) \<and>
   fst (get_user_by_slack ''U2'' ann_db) = Inl not_found"
proof -
  have r: "sqlite_int 999999"
    by (simp add: sqlite_int_def)
  have h1: "999999 \<notin> user_id ` set (users empty_db)"
    by (simp add: empty_db_def)
  have h2: "''U2'' \<notin> User.slack_id ` set (users ann_db)"
    by (simp add: ann_db_def ann_row_def)
  from r h1 h2 get_unknown_not_found [of 999999 empty_db "''U1''"]
    get_unknown_not_found [of 0 ann_db "''U2''"]
  show ?thesis by blast
qed

text \<open>
  C4 as stated covers every absent \<^verbatim>\<open>user_id\<close>. For the key \<^verbatim>\<open>2**63\<close> in the empty store
  \<^verbatim>\<open>get_user\<close> raises \<^verbatim>\<open>OverflowError\<close>, not the not-found error.
\<close>

theorem get_unbindable_user_id:
  "too_big \<notin> user_id ` set (users empty_db) \<and>
   fst (get_user too_big empty_db) = Inl OverflowError \<and>
   fst (get_user too_big empty_db) \<noteq> Inl not_found"
  by (simp add: handler_defs too_big_def empty_db_def)

subsection \<open>C5: counting submissions\<close>

text \<open>
  C5 (as amended). For every integer \<open>A\<close> in the signed 64-bit range,
  \<^verbatim>\<open>submissions_count\<close> returns (never raises) the number of rows of \<^verbatim>\<open>submissions\<close>
  whose \<^verbatim>\<open>author_id\<close> is \<open>A\<close>; the \<^verbatim>\<open>users\<close> table is not consulted. It returns 0 when
  no row has that author, and after \<open>N\<close> further rows by \<open>A\<close> are in the table the count
  is larger by exactly \<open>N\<close>.
\<close>

theorem submissions_count_exact:
  assumes "sqlite_int A"
  shows "fst (submissions_count A db) =
     Inr (int (length (filter (\<lambda>r. author_id r = A) (submissions db)))) \<and>
   (A \<notin> author_id ` set (submissions db) \<longrightarrow> fst (submissions_count A db) = Inr 0) \<and>
   ((\<forall>r \<in> set new. author_id r = A) \<longrightarrow>
      fst (submissions_count A (db\<lparr>submissions := submissions db @ new\<rparr>)) =
        Inr (int (length (filter (\<lambda>r. author_id r = A) (submissions db))) + int (length new)))"
proof -
  have zero: "filter (\<lambda>r. author_id r = A) (submissions db) = []"
    if "A \<notin> author_id ` set (submissions db)"
    using that by (auto simp: filter_empty_conv)
  have all: "filter (\<lambda>r. author_id r = A) new = new" if "\<forall>r \<in> set new. author_id r = A"
    using that by (simp add: filter_id_conv)
  show ?thesis
    by (simp add: submissions_count_eq [OF assms] zero all)
qed

text \<open>The theorem at a store with two submissions by author 1 and none by author 9.\<close>

theorem submissions_count_exact_witness:
  "sqlite_int 1 \<and> sqlite_int 9 \<and>
   fst (submissions_count 1 subs_db) = Inr 2 \<and>
   9 \<notin> author_id ` set (submissions subs_db) \<and>
   fst (submissions_count 9 subs_db) = Inr 0 \<and>
   fst (submissions_count 1 (subs_db\<lparr>submissions := submissions subs_db @ [sub 4 1, sub 5 1, sub 6 1]\<rparr>)) = Inr 5"
proof -
  have r1: "sqlite_int 1" and r9: "sqlite_int 9"
    by (simp_all add: sqlite_int_def)
  have h: "9 \<notin> author_id ` set (submissions subs_db)"
    by (simp add: subs_db_def sub_def)
  have n: "\<forall>r \<in> set [sub 4 1, sub 5 1, sub 6 1]. author_id r = 1"
    by (simp add: sub_def)
  have two: "length (filter (\<lambda>r. author_id r = 1) (submissions subs_db)) = 2"
    by (simp add: subs_db_def sub_def)
  note at_1 = submissions_count_exact [OF r1, of subs_db "[sub 4 1, sub 5 1, sub 6 1]"]
  note at_9 = submissions_count_exact [OF r9, of subs_db "[]"]
  have a: "fst (submissions_count 1 subs_db) = Inr 2"
    using at_1 two by simp
  have b: "fst (submissions_count 9 subs_db) = Inr 0"
    using at_9 h by blast
  have c: "fst (submissions_count 1
      (subs_db\<lparr>submissions := submissions subs_db @ [sub 4 1, sub 5 1, sub 6 1]\<rparr>)) = Inr 5"
    using at_1 n two by simp
  from r1 r9 a h b c show ?thesis by blast
qed

text \<open>
  C5 as stated covers every integer \<^verbatim>\<open>author_id\<close> and promises 0, not an error, for one
  that matches no row. The author \<^verbatim>\<open>2**63\<close> matches no row, and \<^verbatim>\<open>count()\<close> raises
  \<^verbatim>\<open>OverflowError\<close> when it binds it.
\<close>

theorem submissions_count_unbindable_author:
  "too_big \<notin> author_id ` set (submissions subs_db) \<and>
   fst (submissions_count too_big subs_db) = Inl OverflowError \<and>
   fst (submissions_count too_big subs_db) \<noteq> Inr 0"
  by (simp add: handler_defs too_big_def subs_db_def sub_def)

subsection \<open>C6: the fields a partial update applies\<close>




subsection \<open>C7: release of the session\<close>

text \<open>
  Whenever the store raises nothing (every integer the handler passes to it is in the
  signed 64-bit range, and a created \<^verbatim>\<open>slack_id\<close> is new), the handler has closed the
  session it opened by the time it returns; the not-found paths are among them.
\<close>

lemma session_released_without_store_error:
  "open_sessions (snd (get_user_by_slack S db)) = open_sessions db \<and>
   (sqlite_int k \<longrightarrow> open_sessions (snd (get_user k db)) = open_sessions db) \<and>
   (sqlite_int k \<and> list_all sqlite_item (dict_exclude_unset payload) \<longrightarrow>
      open_sessions (snd (update_user k payload now db)) = open_sessions db) \<and>
   (sqlite_int A \<longrightarrow> open_sessions (snd (submissions_count A db)) = open_sessions db) \<and>
   (UserCreate.slack_id p \<notin> User.slack_id ` set (users db) \<longrightarrow>
      open_sessions (snd (create_user p tc tu db)) = open_sessions db)"
proof -
  have "open_sessions (snd (update_user k payload now db)) = open_sessions db"
    if "sqlite_int k" and "list_all sqlite_item (dict_exclude_unset payload)"
  proof (cases "select_by_key k (users db)")
    case None
    with that show ?thesis by (simp add: update_user_missing)
  next
    case (Some u)
    with that show ?thesis by (simp add: update_user_found Let_def)
  qed
  then show ?thesis
    by (simp add: get_user_by_slack_eq get_user_eq submissions_count_eq create_user_new Let_def)
qed

text \<open>
  C7 says that the session a handler opens is released before the handler returns on
  every path, a failing commit included. \<^verbatim>\<open>create_user\<close> has no handler around
  \<^verbatim>\<open>session.commit()\<close>: for a \<^verbatim>\<open>slack_id\<close> the store already has, the integrity error
  leaves the function before \<^verbatim>\<open>session.close()\<close>, and the session stays open.
\<close>

theorem session_left_open_by_failed_commit:
  "fst (create_user ann 20 21 ann_db) = Inl IntegrityError \<and>
   open_sessions ann_db = 0 \<and>
   open_sessions (snd (create_user ann 20 21 ann_db)) = 1"
  by (simp add: create_user_def insert_user_def filter_by_slack_id_def SessionLocal_def
      ann_def ann_db_def ann_row_def)

subsection \<open>C8: uniqueness of \<^verbatim>\<open>slack_id\<close>\<close>



subsection \<open>C9: what an update cannot change\<close>

text \<open>
  C9. Whenever \<^verbatim>\<open>update_user\<close> succeeds, the record it returns and stores has the
  \<^verbatim>\<open>user_id\<close>, the \<^verbatim>\<open>slack_id\<close> and the \<^verbatim>\<open>created_at\<close> of the user as it was before
  the update: the payload has no entry for any of the three.
\<close>

theorem update_user_keeps_identity:
  assumes "fst (update_user k payload now db) = Inr U'"
  shows "\<exists>U. fst (get_user k db) = Inr U \<and>
     user_id U' = user_id U \<and> User.slack_id U' = User.slack_id U \<and>
     User.created_at U' = User.created_at U \<and>
     fst (get_user k (snd (update_user k payload now db))) = Inr U'"
proof -
  from assms obtain U where bound: "sqlite_int k"
    and found: "select_by_key k (users db) = Some U"
    and ok: "list_all sqlite_item (dict_exclude_unset payload)"
    by (rule update_user_Inr)
  let ?U' = "(fold (\<lambda>kv u. setattr u kv) (dict_exclude_unset payload) U)\<lparr>updated_at := now\<rparr>"
  from assms have U': "U' = ?U'"
    by (simp add: update_user_found [OF bound found ok] Let_def)
  have "user_id U = k"
    using select_by_key_Some [OF found] by simp
  then have "user_id ?U' = k"
    by (simp add: fold_setattr_frame)
  with found have "select_by_key k (replace_row ?U' (users db)) = Some ?U'"
    by (rule select_by_key_replace_row)
  with found bound U' show ?thesis
    by (simp add: get_user_Inr update_user_found [OF bound found ok] Let_def fold_setattr_frame)
qed

text \<open>The theorem for an update of two fields of the only user of a store.\<close>

theorem update_user_keeps_identity_witness:
  "fst (update_user 1 clear_name 20 ann_db) = Inr (ann_row\<lparr>User.current_streak := Some 3, User.display_name := None, updated_at := 20\<rparr>) \<and>
   (\<exists>U. fst (get_user 1 ann_db) = Inr U \<and>
     user_id (ann_row\<lparr>User.current_streak := Some 3, User.display_name := None, updated_at := 20\<rparr>) = user_id U \<and>
     User.slack_id (ann_row\<lparr>User.current_streak := Some 3, User.display_name := None, updated_at := 20\<rparr>) = User.slack_id U \<and>
     User.created_at (ann_row\<lparr>User.current_streak := Some 3, User.display_name := None, updated_at := 20\<rparr>) = User.created_at U \<and>
     fst (get_user 1 (snd (update_user 1 clear_name 20 ann_db))) =
       Inr (ann_row\<lparr>User.current_streak := Some 3, User.display_name := None, updated_at := 20\<rparr>))"
proof -
  have h: "fst (update_user 1 clear_name 20 ann_db) =
      Inr (ann_row\<lparr>User.current_streak := Some 3, User.display_name := None, updated_at := 20\<rparr>)"
    by (simp add: handler_defs ann_db_def ann_row_def clear_name_def)
  from h update_user_keeps_identity [OF h] show ?thesis by blast
qed

subsection \<open>C10: the read-only handlers\<close>

text \<open>
  C10. For every store and every input, \<^verbatim>\<open>get_user\<close>, \<^verbatim>\<open>get_user_by_slack\<close> and
  \<^verbatim>\<open>submissions_count\<close> leave both tables as they were; and on their success and
  not-found paths the store they leave is the store they were given in every component,
  the open sessions included.
\<close>

theorem reads_leave_store_unchanged:
  "users (snd (get_user k db)) = users db \<and>
   submissions (snd (get_user k db)) = submissions db \<and>
   users (snd (get_user_by_slack S db)) = users db \<and>
   submissions (snd (get_user_by_slack S db)) = submissions db \<and>
   users (snd (submissions_count A db)) = users db \<and>
   submissions (snd (submissions_count A db)) = submissions db \<and>
   (fst (get_user k db) = Inr u \<or> fst (get_user k db) = Inl not_found \<longrightarrow>
      snd (get_user k db) = db) \<and>
   (fst (get_user_by_slack S db) = Inr u \<or> fst (get_user_by_slack S db) = Inl not_found \<longrightarrow>
      snd (get_user_by_slack S db) = db) \<and>
   (fst (submissions_count A db) = Inr n \<longrightarrow> snd (submissions_count A db) = db)"
proof -
  have g: "users (snd (get_user k db)) = users db \<and>
      submissions (snd (get_user k db)) = submissions db \<and>
      (fst (get_user k db) = Inr u \<or> fst (get_user k db) = Inl not_found \<longrightarrow>
         snd (get_user k db) = db)"
    by (cases "sqlite_int k")
      (simp_all add: get_user_eq get_user_overflow users_SessionLocal submissions_SessionLocal)
  have c: "users (snd (submissions_count A db)) = users db \<and>
      submissions (snd (submissions_count A db)) = submissions db \<and>
      (fst (submissions_count A db) = Inr n \<longrightarrow> snd (submissions_count A db) = db)"
    by (cases "sqlite_int A")
      (simp_all add: submissions_count_eq submissions_count_overflow users_SessionLocal
        submissions_SessionLocal)
  from g c show ?thesis
    by (simp add: get_user_by_slack_eq)
qed

text \<open>
  The theorem for a key that is found, a slack id that is not, and a count, at stores
  with one user.
\<close>

theorem reads_leave_store_unchanged_witness:
  "fst (get_user 1 ann_db) = Inr ann_row \<and> snd (get_user 1 ann_db) = ann_db \<and>
   fst (get_user_by_slack ''U2'' ann_db) = Inl not_found \<and>
   snd (get_user_by_slack ''U2'' ann_db) = ann_db \<and>
   fst (submissions_count 1 subs_db) = Inr 2 \<and> snd (submissions_count 1 subs_db) = subs_db"
proof -
  have s: "fst (get_user_by_slack ''U2'' ann_db) = Inl not_found"
    by (simp add: handler_defs ann_db_def ann_row_def)
  have n: "fst (submissions_count 1 subs_db) = Inr 2"
    by (simp add: handler_defs subs_db_def sub_def)
  from get_user_ann s reads_leave_store_unchanged [of 1 ann_db "''U2''" 1 ann_row 0]
  have a: "snd (get_user 1 ann_db) = ann_db \<and> snd (get_user_by_slack ''U2'' ann_db) = ann_db"
    by blast
  from n reads_leave_store_unchanged [of 0 subs_db "''U2''" 1 ann_row 2]
  have b: "snd (submissions_count 1 subs_db) = subs_db"
    by blast
  from get_user_ann s n a b show ?thesis by blast
qed

end
